theory Spec2Isabelle
  imports Main "HOL-Library.Word" "HOL-Library.Signed_Division"
begin

section \<open>Constants\<close>

text \<open>
  Modelled from the spec: \<open>BLOCK_SIZE\<close>, a macro of disk.h, which is not part of the
  sources. The spec gives the block size as 4096 bytes.
\<close>

definition BLOCK_SIZE :: nat where
  "BLOCK_SIZE = 4096"

text \<open>
  Modelled from the spec: \<open>FS_FILENAME_LEN\<close>, a macro of fs.h, which is not part of the
  sources. The name field of a directory entry has 16 bytes, terminator included.
\<close>

definition FS_FILENAME_LEN :: nat where
  "FS_FILENAME_LEN = 16"

text \<open>
  Modelled from the spec: \<open>FS_FILE_MAX_COUNT\<close>, a macro of fs.h, which is not part of the
  sources. The root directory has exactly 128 entries.
\<close>

definition FS_FILE_MAX_COUNT :: nat where
  "FS_FILE_MAX_COUNT = 128"

text \<open>
  Modelled from the spec: \<open>FS_OPEN_MAX_COUNT\<close>, a macro of fs.h, which is not part of the
  sources. The file descriptor table has 32 slots.
\<close>

definition FS_OPEN_MAX_COUNT :: nat where
  "FS_OPEN_MAX_COUNT = 32"

abbreviation NUL :: char where
  "NUL \<equiv> CHR 0x00"

section \<open>C strings in fixed arrays\<close>

text \<open>
  A \<open>char\<close> array is the list of its bytes; its length is the capacity of the array. The
  C string held by an array is the run of bytes before the first NUL. A \<open>const char *\<close>
  argument is given as the list of its bytes (a terminator may follow, nothing after it is
  read).
\<close>

definition cstr :: "string \<Rightarrow> string" where
  "cstr s = takeWhile (\<lambda>c. c \<noteq> NUL) s"

definition strlen :: "string \<Rightarrow> nat" where
  "strlen s = length (cstr s)"

text \<open>
  \<open>strcmp\<close> compares byte by byte as unsigned chars and stops at the first difference or at
  a terminator. The end of a list stands for a terminator: the arrays of a mounted state
  hold one (see \<open>mounted\<close>), so the end of an array is not reached there.
\<close>

fun strcmp :: "string \<Rightarrow> string \<Rightarrow> int" where
  "strcmp [] [] = 0"
| "strcmp [] (y # ys) = (if y = NUL then 0 else -1)"
| "strcmp (x # xs) [] = (if x = NUL then 0 else 1)"
| "strcmp (x # xs) (y # ys) =
     (if x \<noteq> y then (if (of_char x :: nat) < of_char y then -1 else 1)
      else if x = NUL then 0
      else strcmp xs ys)"

text \<open>
  \<open>strcpy dst src\<close> writes the string of \<open>src\<close> and its terminator over the first bytes of
  \<open>dst\<close> and leaves the bytes behind them as they were. It does not know the capacity of
  \<open>dst\<close>: a string that does not fit with its terminator is written past the end of the
  array, which is the result \<open>None\<close> (out-of-bounds write).
\<close>

definition strcpy :: "string \<Rightarrow> string \<Rightarrow> string option" where
  "strcpy dst src =
     (let s = cstr src
      in if length s < length dst then Some (s @ NUL # drop (length s + 1) dst) else None)"

section \<open>Data structures of fs.c\<close>

record superblock_t =
  signature :: string
  numBlocks :: "16 word"
  rootDirInd :: "16 word"
  dataInd :: "16 word"
  numDataBlocks :: "16 word"
  numFAT :: "8 word"

type_synonym FAT_t = "16 word"

record rootdirectory_t =
  filename :: string
  fileSize :: "32 word"
  dataBlockInd :: "16 word"
  num_fd_pointers :: "8 word"
  unused :: "8 word list"

text \<open>
  The member \<open>dir_ptr\<close> of \<open>struct file_descriptor_t\<close> is set to NULL by \<open>fs_mount\<close> and
  never read or written again; it is left out. \<open>size_t\<close> is 64 bits wide.
\<close>

record file_descriptor_t =
  is_used :: bool
  file_index :: int
  offset :: "64 word"
  file_name :: string

text \<open>
  The three buffers obtained from \<open>malloc\<close> in \<open>fs_mount\<close>. The state records which of
  them are live, so that \<open>free\<close> of a buffer that is not live is visible.
\<close>

datatype buffer = SuperblockBuf | RootDirBuf | FATBuf

text \<open>
  The globals of fs.c and the block device behind disk.h. \<open>mySuperblock\<close> is \<open>None\<close> for
  the NULL pointer. \<open>myRootDir\<close> and \<open>myFAT\<close> are the arrays the pointers of these names
  point to; \<open>disk\<close> is the list of blocks of the open virtual disk, \<open>None\<close> when no disk is
  open.
\<close>

record fs_state =
  mySuperblock :: "superblock_t option"
  myRootDir :: "rootdirectory_t list"
  myFAT :: "FAT_t list"
  fd_table :: "file_descriptor_t list"
  disk :: "string list option"
  live :: "buffer set"

text \<open>
  A mounted state: what the operations expect of the globals once a volume that follows
  the on-disk format has been mounted. The superblock is loaded, the three buffers are
  live, the root directory has its 128 entries and the descriptor table its 32 slots, and
  the FAT has at least its reserved entry 0. Every name array has 16 bytes with a
  terminator among them; every directory entry has a size that is not negative and its
  nine reserved bytes zero. The operations keep a mounted state mounted (see below).
\<close>

definition name_array :: "string \<Rightarrow> bool" where
  "name_array s \<longleftrightarrow> length s = FS_FILENAME_LEN \<and> NUL \<in> set s"

definition dir_entry :: "rootdirectory_t \<Rightarrow> bool" where
  "dir_entry e \<longleftrightarrow> name_array (filename e) \<and> 0 \<le> sint (fileSize e) \<and> unused e = replicate 9 0"

definition mounted :: "fs_state \<Rightarrow> bool" where
  "mounted st \<longleftrightarrow>
     mySuperblock st \<noteq> None \<and>
     live st = {SuperblockBuf, RootDirBuf, FATBuf} \<and>
     length (myRootDir st) = FS_FILE_MAX_COUNT \<and>
     length (fd_table st) = FS_OPEN_MAX_COUNT \<and>
     myFAT st \<noteq> [] \<and>
     list_all dir_entry (myRootDir st) \<and>
     list_all (\<lambda>f. name_array (file_name f)) (fd_table st)"

section \<open>Block device\<close>

text \<open>
  Modelled from the spec: \<open>block_read\<close> of disk.c, which is not part of the sources. It
  transfers exactly one whole block and fails as a whole (no disk open, block index out
  of range), leaving the buffer untouched. The block index is a \<open>size_t\<close>: a negative
  \<open>int\<close> argument converts to a value beyond every block count.
\<close>

definition block_read :: "string list option \<Rightarrow> int \<Rightarrow> string option" where
  "block_read d block =
     (case d of
        None \<Rightarrow> None
      | Some bs \<Rightarrow> if 0 \<le> block \<and> nat block < length bs then Some (bs ! nat block) else None)"

text \<open>
  Modelled from the spec: \<open>block_write\<close> of disk.c, which is not part of the sources. It
  transfers exactly one whole block and fails as a whole, leaving the disk untouched. Its
  callers in fs.c ignore the value it returns, so the model gives the disk only.
\<close>

definition block_write :: "string list option \<Rightarrow> int \<Rightarrow> string \<Rightarrow> string list option" where
  "block_write d block buf =
     (case d of
        None \<Rightarrow> None
      | Some bs \<Rightarrow> if 0 \<le> block \<and> nat block < length bs then Some (bs[nat block := buf]) else Some bs)"

section \<open>Private helpers of fs.c\<close>

text \<open>
  \<open>locate_file\<close>: the first entry whose name compares equal. The second conjunct of the
  source, \<open>(myRootDir + i)->filename != 0x00\<close>, compares the address of the array with
  NULL and is always true.
\<close>

primrec locate_file_loop :: "rootdirectory_t list \<Rightarrow> string \<Rightarrow> int \<Rightarrow> int" where
  "locate_file_loop [] name i = -1"
| "locate_file_loop (e # es) name i =
     (if strcmp (filename e) name = 0 \<and> True then i else locate_file_loop es name (i + 1))"

definition locate_file :: "fs_state \<Rightarrow> string \<Rightarrow> int" where
  "locate_file st name = locate_file_loop (take FS_FILE_MAX_COUNT (myRootDir st)) name 0"

primrec locate_avail_fd_loop :: "file_descriptor_t list \<Rightarrow> int \<Rightarrow> int" where
  "locate_avail_fd_loop [] i = -1"
| "locate_avail_fd_loop (f # fs) i =
     (if is_used f = False then i else locate_avail_fd_loop fs (i + 1))"

definition locate_avail_fd :: "fs_state \<Rightarrow> int" where
  "locate_avail_fd st = locate_avail_fd_loop (take FS_OPEN_MAX_COUNT (fd_table st)) 0"

text \<open>
  The access \<open>fd_table[fd]\<close>. The table has \<open>FS_OPEN_MAX_COUNT\<close> slots; an index outside
  it is an out-of-bounds access and yields no slot.
\<close>

definition fd_lookup :: "fs_state \<Rightarrow> int \<Rightarrow> file_descriptor_t option" where
  "fd_lookup st fd =
     (if 0 \<le> fd \<and> fd < int FS_OPEN_MAX_COUNT \<and> nat fd < length (fd_table st)
      then Some (fd_table st ! nat fd) else None)"

text \<open>
  \<open>error_check\<close> only reports: it returns -1 for a name longer than \<open>FS_FILENAME_LEN\<close>, when
  the number of positions at which the name agrees with the entries of the directory,
  summed over all entries, equals the length of the name, and when no entry is empty.
\<close>

definition error_check :: "fs_state \<Rightarrow> string \<Rightarrow> int" where
  "error_check st name =
     (let size = strlen name
      in if size > FS_FILENAME_LEN then -1
         else
           let es = take FS_FILE_MAX_COUNT (myRootDir st);
               same_char = sum_list (map (\<lambda>e. length (filter (\<lambda>j. filename e ! j = name ! j) [0..<size])) es);
               files_in_rootdir = length (filter (\<lambda>e. filename e ! 0 \<noteq> NUL) es)
           in if same_char = size then -1
              else if files_in_rootdir = FS_FILE_MAX_COUNT then -1
              else 0)"

section \<open>Operations\<close>

text \<open>
  Every operation returns \<open>None\<close> when the source accesses memory out of bounds or
  dereferences NULL, and otherwise its \<open>int\<close> result with the state it leaves.
\<close>

subsection \<open>fs_umount\<close>

definition free :: "fs_state \<Rightarrow> buffer \<Rightarrow> fs_state option" where
  "free st b = (if b \<in> live st then Some (st\<lparr>live := live st - {b}\<rparr>) else None)"

definition reset_fd :: "file_descriptor_t \<Rightarrow> file_descriptor_t" where
  "reset_fd f = f\<lparr>offset := 0, is_used := False, file_index := -1,
                 file_name := NUL # drop 1 (file_name f)\<rparr>"

text \<open>
  \<open>mySuperblock->signature\<close> is the first member of the structure, so the first \<open>free\<close>
  releases the superblock buffer itself and \<open>free(mySuperblock)\<close> releases it a second
  time; likewise for \<open>myRootDir->filename\<close> and \<open>myRootDir\<close>.
\<close>

definition fs_umount :: "fs_state \<Rightarrow> (int \<times> fs_state) option" where
  "fs_umount st =
     (case mySuperblock st of
        None \<Rightarrow> Some (-1, st)
      | Some sb \<Rightarrow>
          Option.bind (free st SuperblockBuf) (\<lambda>s1.
          Option.bind (free s1 SuperblockBuf) (\<lambda>s2.
          Option.bind (free s2 RootDirBuf) (\<lambda>s3.
          Option.bind (free s3 RootDirBuf) (\<lambda>s4.
          Option.bind (free s4 FATBuf) (\<lambda>s5.
            Some (0, s5\<lparr>fd_table := map reset_fd (take FS_OPEN_MAX_COUNT (fd_table s5))
                                      @ drop FS_OPEN_MAX_COUNT (fd_table s5),
                        disk := None\<rparr>)))))))"

subsection \<open>fs_create\<close>

primrec first_empty :: "rootdirectory_t list \<Rightarrow> nat \<Rightarrow> nat option" where
  "first_empty [] i = None"
| "first_empty (e # es) i = (if filename e ! 0 = NUL then Some i else first_empty es (i + 1))"

text \<open>The result of \<open>error_check\<close> is not used by \<open>fs_create\<close>.\<close>

definition fs_create :: "fs_state \<Rightarrow> string \<Rightarrow> (int \<times> fs_state) option" where
  "fs_create st name =
     (let ec = error_check st name
      in case first_empty (take FS_FILE_MAX_COUNT (myRootDir st)) 0 of
           None \<Rightarrow> Some (-1, st)
         | Some i \<Rightarrow>
             (case myFAT st of
                [] \<Rightarrow> None
              | w # ws \<Rightarrow>
                  let e0 = (myRootDir st ! i)\<lparr>dataBlockInd := w\<rparr>
                  in (case strcpy (filename e0) name of
                        None \<Rightarrow> None
                      | Some nm \<Rightarrow>
                          Some (0, st\<lparr>myRootDir := (myRootDir st)
                                   [i := e0\<lparr>filename := nm, fileSize := 0,
                                            dataBlockInd := -1, num_fd_pointers := 0\<rparr>]\<rparr>))))"

subsection \<open>fs_delete\<close>

text \<open>
  One pass of the loop of \<open>fs_delete\<close>: it clears the byte at position \<open>frst_dta_blk_i\<close> of
  the first staging buffer, or at \<open>frst_dta_blk_i - BLOCK_SIZE\<close> of the second. Both
  buffers have \<open>BLOCK_SIZE\<close> bytes.
\<close>

definition delete_step :: "int \<Rightarrow> string \<times> string \<Rightarrow> (string \<times> string) option" where
  "delete_step frst bufs =
     (if frst < int BLOCK_SIZE
      then (if 0 \<le> frst then Some ((fst bufs)[nat frst := NUL], snd bufs) else None)
      else (if frst - int BLOCK_SIZE < int BLOCK_SIZE
            then Some (fst bufs, (snd bufs)[nat (frst - int BLOCK_SIZE) := NUL]) else None))"

primrec delete_loop :: "nat \<Rightarrow> int \<Rightarrow> string \<times> string \<Rightarrow> (string \<times> string) option" where
  "delete_loop 0 frst bufs = Some bufs"
| "delete_loop (Suc n) frst bufs =
     (case delete_step frst bufs of None \<Rightarrow> None | Some bufs' \<Rightarrow> delete_loop n frst bufs')"

definition read_into :: "string list option \<Rightarrow> int \<Rightarrow> string \<Rightarrow> string" where
  "read_into d block buf = (case block_read d block of None \<Rightarrow> buf | Some b \<Rightarrow> b)"

definition fs_delete :: "fs_state \<Rightarrow> string \<Rightarrow> (int \<times> fs_state) option" where
  "fs_delete st name =
     (let file_index = locate_file st name
      in if file_index = -1 then Some (-1, st)
         else
           let the_dir = myRootDir st ! nat file_index
           in if num_fd_pointers the_dir > 0 then Some (-1, st)
              else
                let frst_dta_blk_i = sint (dataBlockInd the_dir);
                    num_blocks = sint (fileSize the_dir) sdiv int BLOCK_SIZE
                in case mySuperblock st of
                     None \<Rightarrow> None
                   | Some sb \<Rightarrow>
                       let buf1 = read_into (disk st) (sint (dataInd sb)) (replicate BLOCK_SIZE NUL);
                           buf2 = read_into (disk st) (sint (dataInd sb) + 1) (replicate BLOCK_SIZE NUL)
                       in (case delete_loop (nat num_blocks) frst_dta_blk_i (buf1, buf2) of
                            None \<Rightarrow> None
                          | Some bufs \<Rightarrow>
                              let d1 = block_write (disk st) (sint (dataInd sb)) (fst bufs);
                                  d2 = block_write d1 (sint (dataInd sb) + 1) (snd bufs)
                              in Some (0, st\<lparr>myRootDir := (myRootDir st)
                                       [nat file_index := the_dir
                                          \<lparr>dataBlockInd := -1,
                                           filename := NUL # drop 1 (filename the_dir),
                                           fileSize := 0,
                                           num_fd_pointers := 0\<rparr>],
                                     disk := d2\<rparr>)))"

subsection \<open>fs_open, fs_close, fs_stat, fs_lseek\<close>

text \<open>
  \<open>fs_open\<close> writes the slot \<open>fd_table[file_index]\<close>, where \<open>file_index\<close> is the index of
  the file in the root directory, and returns \<open>fd\<close>.
\<close>

definition fs_open :: "fs_state \<Rightarrow> string \<Rightarrow> (int \<times> fs_state) option" where
  "fs_open st name =
     (let file_index = locate_file st name
      in if file_index = -1 then Some (-1, st)
         else
           let fd = locate_avail_fd st
           in if fd = -1 then Some (-1, st)
              else
                case fd_lookup st file_index of
                  None \<Rightarrow> None
                | Some slot \<Rightarrow>
                    (case strcpy (file_name slot) name of
                       None \<Rightarrow> None
                     | Some nm \<Rightarrow>
                         let e = myRootDir st ! nat file_index
                         in Some (fd, st\<lparr>fd_table := (fd_table st)
                                    [nat file_index := slot\<lparr>is_used := True, file_index := file_index,
                                                           offset := 0, file_name := nm\<rparr>],
                                  myRootDir := (myRootDir st)
                                    [nat file_index := e\<lparr>num_fd_pointers := num_fd_pointers e + 1\<rparr>]\<rparr>)))"

definition fs_close :: "fs_state \<Rightarrow> int \<Rightarrow> (int \<times> fs_state) option" where
  "fs_close st fd =
     (if fd \<ge> int FS_OPEN_MAX_COUNT \<or> fd < 0 then Some (-1, st)
      else
        case fd_lookup st fd of
          None \<Rightarrow> None
        | Some fd_obj \<Rightarrow>
            if is_used fd_obj = False then Some (-1, st)
            else
              let file_index = locate_file st (file_name fd_obj)
              in if file_index = -1 then Some (-1, st)
                 else
                   let e = myRootDir st ! nat file_index
                   in Some (0, st\<lparr>myRootDir := (myRootDir st)
                              [nat file_index := e\<lparr>num_fd_pointers := num_fd_pointers e - 1\<rparr>],
                            fd_table := (fd_table st)[nat fd := fd_obj\<lparr>is_used := False\<rparr>]\<rparr>))"

definition fs_stat :: "fs_state \<Rightarrow> int \<Rightarrow> int option" where
  "fs_stat st fd =
     (if fd \<ge> int FS_OPEN_MAX_COUNT \<or> fd < 0 then Some (-1)
      else
        case fd_lookup st fd of
          None \<Rightarrow> None
        | Some fd_obj \<Rightarrow>
            if is_used fd_obj = False then Some (-1)
            else
              let file_index = locate_file st (file_name fd_obj)
              in if file_index = -1 then Some (-1)
                 else Some (sint (fileSize (myRootDir st ! nat file_index))))"

text \<open>
  In \<open>fs_lseek\<close> the \<open>size_t\<close> offset is compared with the \<open>int32_t\<close> file size after the
  size has been converted to \<open>size_t\<close>; \<open>offset < 0\<close> is never true.
\<close>

definition fs_lseek :: "fs_state \<Rightarrow> int \<Rightarrow> 64 word \<Rightarrow> (int \<times> fs_state) option" where
  "fs_lseek st fd off =
     (case fd_lookup st fd of
        None \<Rightarrow> None
      | Some fd_obj \<Rightarrow>
          let file_index = locate_file st (file_name fd_obj)
          in if file_index = -1 then Some (-1, st)
             else
               (case fs_stat st fd of
                  None \<Rightarrow> None
                | Some file_size \<Rightarrow>
                    if False \<or> off > (word_of_int file_size :: 64 word) then Some (-1, st)
                    else if is_used fd_obj = False then Some (-1, st)
                    else Some (0, st\<lparr>fd_table := (fd_table st)[nat fd := fd_obj\<lparr>offset := off\<rparr>]\<rparr>)))"

subsection \<open>fs_read\<close>

text \<open>
  The loop of \<open>fs_read\<close> that counts the whole blocks before the cursor. Its results are
  local and not used afterwards.
\<close>

function read_skip :: "nat \<Rightarrow> nat \<Rightarrow> nat \<times> nat" where
  "read_skip cur_offset num_blocks =
     (if cur_offset \<ge> BLOCK_SIZE then read_skip (cur_offset - BLOCK_SIZE) (num_blocks + 1)
      else (cur_offset, num_blocks))"
  by pat_completeness auto
termination
  by (relation "measure fst") (auto simp: BLOCK_SIZE_def)

text \<open>
  \<open>buf\<close> is the caller's buffer, given by its bytes. \<open>block_read\<close> stores a whole block in
  it: a buffer shorter than a block is overrun. The block read is the one whose number on
  the disk is \<open>dataBlockInd\<close> of the file's entry. The result is the returned \<open>int\<close>, the
  state and the buffer.
\<close>

definition fs_read :: "fs_state \<Rightarrow> int \<Rightarrow> string \<Rightarrow> 64 word \<Rightarrow> (int \<times> fs_state \<times> string) option" where
  "fs_read st fd buf count =
     (case fd_lookup st fd of
        None \<Rightarrow> None
      | Some fd_obj \<Rightarrow>
          if is_used fd_obj = False \<or> count \<le> 0 then Some (-1, st, buf)
          else
            let file_index = locate_file st (file_name fd_obj)
            in if file_index < 0 \<or> nat file_index \<ge> length (myRootDir st) then None
               else
                 let the_dir = myRootDir st ! nat file_index;
                     frst_dta_blk_i = sint (dataBlockInd the_dir);
                     skipped = read_skip (unat (offset fd_obj)) 0
                 in (case block_read (disk st) frst_dta_blk_i of
                       None \<Rightarrow> Some (0, st, buf)
                     | Some b \<Rightarrow>
                         if length buf < BLOCK_SIZE then None
                         else Some (0, st, b @ drop BLOCK_SIZE buf)))"

section \<open>Example states\<close>

text \<open>
  A small volume of five blocks: superblock (block 0), one FAT block (block 1), the root
  directory (block 2) and two data blocks (blocks 3 and 4), the second of which starts
  with the bytes \<open>hello\<close>. The operations work on the in-memory copies of superblock, FAT
  and root directory, so the bytes of blocks 0 to 2 are left zero here, as are those of
  data block 0. The in-memory state is given by the files of the root directory and the
  descriptors in use; the remaining directory entries are empty and the remaining
  descriptors free, with the zero contents of a static array. In the FAT, entry 0 is
  reserved and data block 1 is the single block of a chain.
\<close>

definition ex_sb :: superblock_t where
  "ex_sb = \<lparr>signature = ''ECS150FS'', numBlocks = 5, rootDirInd = 2, dataInd = 3,
            numDataBlocks = 2, numFAT = 1\<rparr>"

definition pad_name :: "string \<Rightarrow> string" where
  "pad_name name = name @ replicate (16 - length name) NUL"

definition empty_entry :: rootdirectory_t where
  "empty_entry = \<lparr>filename = replicate 16 NUL, fileSize = 0, dataBlockInd = 0,
                  num_fd_pointers = 0, unused = replicate 9 0\<rparr>"

definition file_entry :: "string \<Rightarrow> 32 word \<Rightarrow> 16 word \<Rightarrow> 8 word \<Rightarrow> rootdirectory_t" where
  "file_entry name sz blk cnt =
     \<lparr>filename = pad_name name, fileSize = sz, dataBlockInd = blk,
      num_fd_pointers = cnt, unused = replicate 9 0\<rparr>"

definition free_fd :: "string \<Rightarrow> file_descriptor_t" where
  "free_fd name = \<lparr>is_used = False, file_index = 0, offset = 0, file_name = pad_name name\<rparr>"

definition open_fd :: "string \<Rightarrow> int \<Rightarrow> 64 word \<Rightarrow> file_descriptor_t" where
  "open_fd name i off = \<lparr>is_used = True, file_index = i, offset = off, file_name = pad_name name\<rparr>"

definition ex_disk :: "string list" where
  "ex_disk = replicate 4 (replicate BLOCK_SIZE NUL) @ [''hello'' @ replicate (BLOCK_SIZE - 5) NUL]"

definition ex_state :: "rootdirectory_t list \<Rightarrow> file_descriptor_t list \<Rightarrow> fs_state" where
  "ex_state files fds =
     \<lparr>mySuperblock = Some ex_sb,
      myRootDir = files @ replicate (128 - length files) empty_entry,
      myFAT = [0xFFFF, 0xFFFF],
      fd_table = fds @ replicate (32 - length fds) (free_fd []),
      disk = Some ex_disk,
      live = {SuperblockBuf, RootDirBuf, FATBuf}\<rparr>"

section \<open>Facts about strings and searching\<close>

lemma cstr_simps [simp]:
  "cstr [] = []"
  "cstr (c # s) = (if c = NUL then [] else c # cstr s)"
  "cstr (replicate n NUL) = []"
  by (simp_all add: cstr_def)

lemma cstr_no_NUL: "NUL \<notin> set (cstr s)"
  by (induction s) auto

lemma cstr_append_NUL: "NUL \<notin> set s \<Longrightarrow> cstr (s @ NUL # t) = s"
  by (induction s) auto

lemma cstr_shorter: "NUL \<in> set s \<Longrightarrow> length (cstr s) < length s"
  by (induction s) auto

lemma strcmp_0_iff: "strcmp a b = 0 \<longleftrightarrow> cstr a = cstr b"
  by (induction a b rule: strcmp.induct) auto

lemma strcpy_fits:
  "length (cstr src) < length dst \<Longrightarrow>
     strcpy dst src = Some (cstr src @ NUL # drop (length (cstr src) + 1) dst)"
  by (simp add: strcpy_def Let_def)

lemma locate_file_loop_found:
  "locate_file_loop es name k = i \<Longrightarrow> i \<noteq> -1 \<Longrightarrow> 0 \<le> k \<Longrightarrow>
     k \<le> i \<and> i < k + int (length es) \<and> cstr (filename (es ! nat (i - k))) = cstr name"
proof (induction es arbitrary: k)
  case Nil
  then show ?case by simp
next
  case (Cons e es)
  show ?case
  proof (cases "cstr (filename e) = cstr name")
    case True
    with Cons.prems show ?thesis by (simp add: strcmp_0_iff)
  next
    case False
    with Cons.prems have "locate_file_loop es name (k + 1) = i"
      by (simp add: strcmp_0_iff)
    from Cons.IH [OF this] Cons.prems
    have *: "k + 1 \<le> i" "i < k + 1 + int (length es)"
      "cstr (filename (es ! nat (i - (k + 1)))) = cstr name"
      by auto
    from * have "nat (i - k) = Suc (nat (i - (k + 1)))" by linarith
    with * show ?thesis by simp
  qed
qed

lemma locate_file_loop_names:
  "map (\<lambda>e. cstr (filename e)) es = map (\<lambda>e. cstr (filename e)) es' \<Longrightarrow> cstr n = cstr n' \<Longrightarrow>
     locate_file_loop es n k = locate_file_loop es' n' k"
proof (induction es arbitrary: es' k)
  case Nil
  then show ?case by simp
next
  case (Cons e es)
  then obtain e' es'' where "es' = e' # es''" by (cases es') auto
  with Cons show ?case by (simp add: strcmp_0_iff)
qed

lemma locate_file_loop_replicate:
  "cstr (filename e) \<noteq> cstr name \<Longrightarrow> locate_file_loop (replicate n e) name i = -1"
  by (induction n arbitrary: i) (auto simp: strcmp_0_iff)

lemma locate_avail_fd_loop_found:
  "locate_avail_fd_loop fs k = i \<Longrightarrow> i \<noteq> -1 \<Longrightarrow> 0 \<le> k \<Longrightarrow>
     k \<le> i \<and> i < k + int (length fs) \<and> \<not> is_used (fs ! nat (i - k))"
proof (induction fs arbitrary: k)
  case Nil
  then show ?case by simp
next
  case (Cons f fs)
  show ?case
  proof (cases "is_used f")
    case False
    with Cons.prems show ?thesis by simp
  next
    case True
    with Cons.prems have "locate_avail_fd_loop fs (k + 1) = i" by simp
    from Cons.IH [OF this] Cons.prems
    have *: "k + 1 \<le> i" "i < k + 1 + int (length fs)" "\<not> is_used (fs ! nat (i - (k + 1)))"
      by auto
    from * have "nat (i - k) = Suc (nat (i - (k + 1)))" by linarith
    with * show ?thesis by simp
  qed
qed

lemma locate_avail_fd_loop_replicate:
  "\<not> is_used f \<Longrightarrow> 0 < n \<Longrightarrow> locate_avail_fd_loop (replicate n f) i = i"
  by (cases n) auto

lemma first_empty_replicate:
  "filename e ! 0 = NUL \<Longrightarrow> 0 < n \<Longrightarrow> first_empty (replicate n e) i = Some i"
  by (cases n) auto

lemma first_empty_lowest:
  "i < length es \<Longrightarrow> filename (es ! i) ! 0 = NUL \<Longrightarrow>
   \<forall>j < i. filename (es ! j) ! 0 \<noteq> NUL \<Longrightarrow> first_empty es k = Some (k + i)"
proof (induction es arbitrary: i k)
  case Nil
  then show ?case by simp
next
  case (Cons e es)
  show ?case
  proof (cases i)
    case 0
    with Cons.prems show ?thesis by simp
  next
    case (Suc i')
    with Cons.prems have "filename e ! 0 \<noteq> NUL" by auto
    moreover from Suc Cons.prems have "first_empty es (k + 1) = Some (k + 1 + i')"
      by (intro Cons.IH) auto
    ultimately show ?thesis using Suc by simp
  qed
qed

lemma mounted_sizes:
  assumes "mounted st"
  shows "length (myRootDir st) = 128" and "length (fd_table st) = 32"
  using assms by (simp_all add: mounted_def FS_FILE_MAX_COUNT_def FS_OPEN_MAX_COUNT_def)

lemma mounted_dir_entry:
  assumes "mounted st" and "i < 128"
  shows "length (filename (myRootDir st ! i)) = 16" and "NUL \<in> set (filename (myRootDir st ! i))"
    and "0 \<le> sint (fileSize (myRootDir st ! i))" and "unused (myRootDir st ! i) = replicate 9 0"
proof -
  from assms have "dir_entry (myRootDir st ! i)"
    by (simp add: mounted_def list_all_length FS_FILE_MAX_COUNT_def)
  then show "length (filename (myRootDir st ! i)) = 16" "NUL \<in> set (filename (myRootDir st ! i))"
    "0 \<le> sint (fileSize (myRootDir st ! i))" "unused (myRootDir st ! i) = replicate 9 0"
    by (simp_all add: dir_entry_def name_array_def FS_FILENAME_LEN_def)
qed

lemma mounted_fd_name:
  assumes "mounted st" and "i < 32"
  shows "length (file_name (fd_table st ! i)) = 16"
proof -
  from assms have "name_array (file_name (fd_table st ! i))"
    by (simp add: mounted_def list_all_length FS_OPEN_MAX_COUNT_def)
  then show ?thesis by (simp add: name_array_def FS_FILENAME_LEN_def)
qed

lemma locate_file_found:
  assumes "mounted st" and "locate_file st name = i" and "i \<noteq> -1"
  shows "0 \<le> i" and "i < 128" and "cstr (filename (myRootDir st ! nat i)) = cstr name"
    and "length (cstr name) < 16"
proof -
  note len = mounted_sizes(1) [OF assms(1)]
  from assms(2) len have "locate_file_loop (myRootDir st) name 0 = i"
    by (simp add: locate_file_def FS_FILE_MAX_COUNT_def)
  from locate_file_loop_found [OF this assms(3)] len
  show *: "0 \<le> i" "i < 128" and eq: "cstr (filename (myRootDir st ! nat i)) = cstr name"
    by simp_all
  from * have "nat i < 128" by simp
  from mounted_dir_entry(1,2) [OF assms(1) this]
  have "length (cstr (filename (myRootDir st ! nat i))) < 16"
    using cstr_shorter [of "filename (myRootDir st ! nat i)"] by simp
  with eq show "length (cstr name) < 16" by simp
qed

lemma locate_file_names:
  assumes "map (\<lambda>e. cstr (filename e)) (myRootDir st') = map (\<lambda>e. cstr (filename e)) (myRootDir st)"
    and "cstr n' = cstr n"
  shows "locate_file st' n' = locate_file st n"
proof -
  from assms(1)
  have "map (\<lambda>e. cstr (filename e)) (take FS_FILE_MAX_COUNT (myRootDir st'))
      = map (\<lambda>e. cstr (filename e)) (take FS_FILE_MAX_COUNT (myRootDir st))"
    by (simp add: take_map [symmetric])
  from locate_file_loop_names [OF this assms(2)] show ?thesis
    by (simp add: locate_file_def)
qed

lemma locate_avail_fd_found:
  assumes "mounted st" and "locate_avail_fd st = fd" and "fd \<noteq> -1"
  shows "0 \<le> fd" and "fd < 32" and "\<not> is_used (fd_table st ! nat fd)"
proof -
  note len = mounted_sizes(2) [OF assms(1)]
  from assms(2) len have "locate_avail_fd_loop (fd_table st) 0 = fd"
    by (simp add: locate_avail_fd_def FS_OPEN_MAX_COUNT_def)
  from locate_avail_fd_loop_found [OF this assms(3)] len
  show "0 \<le> fd" "fd < 32" "\<not> is_used (fd_table st ! nat fd)"
    by simp_all
qed

lemma uint_size_t_of_int:
  "0 \<le> k \<Longrightarrow> k < 2 ^ 31 \<Longrightarrow> uint (word_of_int k :: 64 word) = k"
  by (simp add: uint_word_of_int take_bit_int_eq_self)

lemma int_BLOCK_SIZE: "int BLOCK_SIZE = 4096"
  by (simp add: BLOCK_SIZE_def)

subsection \<open>Evaluation of the example states\<close>

lemma replicate_NUL_numeral:
  "replicate (numeral n) NUL = NUL # replicate (pred_numeral n) NUL"
  by (simp add: numeral_eq_Suc)

lemma replicate_update_0:
  "(replicate (numeral n) x)[0 := y] = y # replicate (pred_numeral n) x"
  by (simp add: numeral_eq_Suc)

lemma replicate_update_Suc:
  "(replicate (numeral n) x)[Suc i := y] = x # (replicate (pred_numeral n) x)[i := y]"
  by (simp add: numeral_eq_Suc)

lemma replicate_update_same: "(replicate n x)[i := x] = replicate n x"
  by (cases "i < n") (simp_all add: list_update_same_conv list_update_beyond)

lemmas ex_defs = ex_state_def file_entry_def empty_entry_def free_fd_def open_fd_def ex_sb_def
  pad_name_def FS_FILE_MAX_COUNT_def FS_OPEN_MAX_COUNT_def FS_FILENAME_LEN_def

lemmas ex_simps = ex_defs replicate_NUL_numeral replicate_update_0 replicate_update_Suc
  strlen_def nth_append fd_lookup_def locate_file_def locate_avail_fd_def strcmp_0_iff
  strcpy_def Let_def locate_file_loop_replicate locate_avail_fd_loop_replicate
  first_empty_replicate

lemma name_array_pad: "length name < 16 \<Longrightarrow> name_array (pad_name name)"
  by (auto simp: name_array_def pad_name_def FS_FILENAME_LEN_def)

lemma dir_entry_file_entry:
  "length name < 16 \<Longrightarrow> 0 \<le> sint sz \<Longrightarrow> dir_entry (file_entry name sz blk cnt)"
  by (simp add: dir_entry_def file_entry_def name_array_pad)

lemma mounted_ex_state:
  "length files \<le> 128 \<Longrightarrow> length fds \<le> 32 \<Longrightarrow> list_all dir_entry files \<Longrightarrow>
   list_all (\<lambda>f. name_array (file_name f)) fds \<Longrightarrow> mounted (ex_state files fds)"
  by (auto simp: mounted_def dir_entry_def name_array_def ex_defs list_all_iff)

lemma fs_delete_ex:
  "fs_delete (ex_state [file_entry ''a'' 4096 1 0] []) ''a''
     = Some (0, ex_state [file_entry [] 0 0xFFFF 0] [])"
  by (simp add: fs_delete_def read_into_def block_read_def block_write_def delete_step_def
      int_BLOCK_SIZE ex_simps ex_disk_def signed_divide_int_def replicate_update_same
      list_update_append)

section \<open>The operations keep a mounted state mounted\<close>

text \<open>
  Whenever one of the operations that change the state returns, the state it leaves is
  mounted again. \<open>fs_read\<close> and \<open>fs_stat\<close> leave the state as it is.
\<close>

lemma first_empty_found:
  "first_empty es k = Some i \<Longrightarrow> k \<le> i \<and> i < k + length es"
proof (induction es arbitrary: k)
  case Nil
  then show ?case by simp
next
  case (Cons e es)
  show ?case
  proof (cases "filename e ! 0 = NUL")
    case True
    with Cons.prems show ?thesis by simp
  next
    case False
    with Cons.prems have "first_empty es (k + 1) = Some i" by simp
    from Cons.IH [OF this] show ?thesis by simp
  qed
qed

lemma list_all_update:
  "list_all P xs \<Longrightarrow> (i < length xs \<Longrightarrow> P x) \<Longrightarrow> list_all P (xs[i := x])"
  by (cases "i < length xs") (auto simp: list_all_iff list_update_beyond dest: set_update_subset_insert [THEN subsetD])

lemma strcpy_name_array:
  "strcpy dst src = Some nm \<Longrightarrow> name_array dst \<Longrightarrow> name_array nm"
  by (auto simp: strcpy_def name_array_def Let_def split: if_splits)

lemma fs_create_mounted:
  assumes "mounted st" and "fs_create st name = Some (r, st')"
  shows "mounted st'"
proof (cases "first_empty (take FS_FILE_MAX_COUNT (myRootDir st)) 0")
  case None
  with assms show ?thesis by (simp add: fs_create_def)
next
  case (Some i)
  from first_empty_found [OF Some] have i: "i < 128"
    by (simp add: FS_FILE_MAX_COUNT_def)
  note e = mounted_dir_entry [OF assms(1) i]
  from assms(2) Some obtain nm where nm: "strcpy (filename (myRootDir st ! i)) name = Some nm"
    and st': "st' = st\<lparr>myRootDir := (myRootDir st)
        [i := (myRootDir st ! i)\<lparr>filename := nm, fileSize := 0, dataBlockInd := -1,
                                  num_fd_pointers := 0\<rparr>]\<rparr>"
    by (auto simp: fs_create_def Let_def split: list.splits option.splits)
  from e(1,2) have "name_array (filename (myRootDir st ! i))"
    by (simp add: name_array_def FS_FILENAME_LEN_def)
  from strcpy_name_array [OF nm this] e(4)
  have "dir_entry ((myRootDir st ! i)\<lparr>filename := nm, fileSize := 0, dataBlockInd := -1,
                                  num_fd_pointers := 0\<rparr>)"
    by (simp add: dir_entry_def)
  with assms(1) show ?thesis
    unfolding st' by (simp add: mounted_def list_all_update)
qed

lemma fs_delete_mounted:
  assumes "mounted st" and "fs_delete st name = Some (r, st')"
  shows "mounted st'"
proof (cases "locate_file st name = -1 \<or> 0 < num_fd_pointers (myRootDir st ! nat (locate_file st name))")
  case True
  with assms show ?thesis by (auto simp: fs_delete_def Let_def split: if_splits)
next
  case False
  let ?i = "locate_file st name"
  from False locate_file_found(1,2) [OF assms(1), of name ?i] have i: "nat ?i < 128" by simp
  note e = mounted_dir_entry [OF assms(1) i]
  let ?e = "(myRootDir st ! nat ?i)\<lparr>dataBlockInd := -1,
       filename := NUL # drop 1 (filename (myRootDir st ! nat ?i)), fileSize := 0,
       num_fd_pointers := 0\<rparr>"
  from assms(2) False obtain d where st': "st' = st\<lparr>myRootDir := (myRootDir st)[nat ?i := ?e],
      disk := d\<rparr>"
    by (auto simp: fs_delete_def Let_def split: option.splits)
  from e have "dir_entry ?e"
    by (simp add: dir_entry_def name_array_def FS_FILENAME_LEN_def)
  with assms(1) show ?thesis
    unfolding st' by (simp add: mounted_def list_all_update)
qed

lemma fs_open_mounted:
  assumes "mounted st" and "fs_open st name = Some (r, st')"
  shows "mounted st'"
proof (cases "locate_file st name = -1 \<or> locate_avail_fd st = -1")
  case True
  with assms show ?thesis by (auto simp: fs_open_def Let_def split: if_splits)
next
  case False
  let ?i = "locate_file st name"
  from False assms(2) obtain nm where lk: "fd_lookup st ?i = Some (fd_table st ! nat ?i)"
    and nm: "strcpy (file_name (fd_table st ! nat ?i)) name = Some nm"
    and st': "st' = st\<lparr>fd_table := (fd_table st)
        [nat ?i := (fd_table st ! nat ?i)\<lparr>is_used := True, file_index := ?i, offset := 0,
                                           file_name := nm\<rparr>],
      myRootDir := (myRootDir st)
        [nat ?i := (myRootDir st ! nat ?i)
           \<lparr>num_fd_pointers := num_fd_pointers (myRootDir st ! nat ?i) + 1\<rparr>]\<rparr>"
    by (auto simp: fs_open_def fd_lookup_def Let_def split: option.splits if_splits)
  from lk have i: "nat ?i < 32"
    by (auto simp: fd_lookup_def FS_OPEN_MAX_COUNT_def split: if_splits)
  then have "nat ?i < 128" by simp
  note e = mounted_dir_entry [OF assms(1) this]
  from assms(1) i have "name_array (file_name (fd_table st ! nat ?i))"
    by (simp add: mounted_def list_all_length FS_OPEN_MAX_COUNT_def)
  from strcpy_name_array [OF nm this] have "name_array nm" .
  moreover from e have "dir_entry ((myRootDir st ! nat ?i)
           \<lparr>num_fd_pointers := num_fd_pointers (myRootDir st ! nat ?i) + 1\<rparr>)"
    by (simp add: dir_entry_def name_array_def FS_FILENAME_LEN_def)
  ultimately show ?thesis
    using assms(1) unfolding st' by (simp add: mounted_def list_all_update)
qed

lemma fs_close_mounted:
  assumes "mounted st" and "fs_close st fd = Some (r, st')"
  shows "mounted st'"
proof (cases "st' = st")
  case True
  with assms show ?thesis by simp
next
  case False
  let ?f = "fd_table st ! nat fd"
  let ?i = "locate_file st (file_name ?f)"
  from False assms(2) have fd: "0 \<le> fd" "fd < 32" and i: "?i \<noteq> -1"
    and st': "st' = st\<lparr>myRootDir := (myRootDir st)
        [nat ?i := (myRootDir st ! nat ?i)
           \<lparr>num_fd_pointers := num_fd_pointers (myRootDir st ! nat ?i) - 1\<rparr>],
      fd_table := (fd_table st)[nat fd := ?f\<lparr>is_used := False\<rparr>]\<rparr>"
    by (auto simp: fs_close_def fd_lookup_def Let_def FS_OPEN_MAX_COUNT_def
        split: option.splits if_splits)
  from locate_file_found(1,2) [OF assms(1) refl i] have "nat ?i < 128" by simp
  note e = mounted_dir_entry [OF assms(1) this]
  from assms(1) fd have "name_array (file_name ?f)"
    by (simp add: mounted_def list_all_length FS_OPEN_MAX_COUNT_def)
  moreover from e have "dir_entry ((myRootDir st ! nat ?i)
           \<lparr>num_fd_pointers := num_fd_pointers (myRootDir st ! nat ?i) - 1\<rparr>)"
    by (simp add: dir_entry_def name_array_def FS_FILENAME_LEN_def)
  ultimately show ?thesis
    using assms(1) unfolding st' by (simp add: mounted_def list_all_update)
qed

lemma fs_lseek_mounted:
  assumes "mounted st" and "fs_lseek st fd off = Some (r, st')"
  shows "mounted st'"
proof (cases "st' = st")
  case True
  with assms show ?thesis by simp
next
  case False
  let ?f = "fd_table st ! nat fd"
  from False assms(2) have fd: "0 \<le> fd" "fd < 32"
    and st': "st' = st\<lparr>fd_table := (fd_table st)[nat fd := ?f\<lparr>offset := off\<rparr>]\<rparr>"
    by (auto simp: fs_lseek_def fd_lookup_def Let_def FS_OPEN_MAX_COUNT_def
        split: option.splits if_splits)
  from assms(1) fd have "name_array (file_name ?f)"
    by (simp add: mounted_def list_all_length FS_OPEN_MAX_COUNT_def)
  then show ?thesis
    using assms(1) unfolding st' by (simp add: mounted_def list_all_update)
qed

section \<open>Reading\<close>

text \<open>
  \<open>fs_read\<close> never changes the state and never returns a positive count: whatever the
  cursor, the size of the file and \<open>count\<close>, its result is 0 or -1.
\<close>

lemma fs_read_state_and_result:
  "fs_read st fd buf count = Some (r, st', buf') \<Longrightarrow> st' = st \<and> (r = 0 \<or> r = -1)"
  by (auto simp: fs_read_def Let_def split: option.splits if_splits)

text \<open>
  C1. The file \<open>x\<close> has 5 bytes in data block 1 and descriptor 0 is open on it with
  cursor 0. Reading 5 bytes should copy the 5 bytes of the file, move the cursor to 5 and
  return 5. \<open>fs_read\<close> returns 0 and leaves the cursor at 0; the buffer receives the whole
  block number 1 of the disk, which is the FAT block and not the file's data block (block
  4 of the disk).
\<close>

theorem fs_read_returns_0:
  "fs_read (ex_state [file_entry ''x'' 5 1 1] [open_fd ''x'' 0 0]) 0
       (replicate BLOCK_SIZE (CHR ''z'')) 5
     = Some (0, ex_state [file_entry ''x'' 5 1 1] [open_fd ''x'' 0 0], ex_disk ! 1)"
  by (simp add: fs_read_def block_read_def ex_simps ex_disk_def)

section \<open>Opening and closing\<close>

text \<open>
  C2. The files \<open>a\<close> and \<open>b\<close> are entries 0 and 1 of the root directory and every
  descriptor is free. \<open>fs_open\<close> of \<open>b\<close> returns 0, the lowest free descriptor, and
  increments the open count of \<open>b\<close>, but the slot it marks in use, with index 1 and
  cursor 0, is slot 1, the index of the file in the directory: slot 0, the one returned, is
  still free.
\<close>

theorem fs_open_marks_other_slot:
  "fs_open (ex_state [file_entry ''a'' 0 0xFFFF 0, file_entry ''b'' 0 0xFFFF 0] []) ''b''
     = Some (0, ex_state [file_entry ''a'' 0 0xFFFF 0, file_entry ''b'' 0 0xFFFF 1]
                  [free_fd [], open_fd ''b'' 1 0]) \<and>
   \<not> is_used (fd_table (ex_state [file_entry ''a'' 0 0xFFFF 0, file_entry ''b'' 0 0xFFFF 1]
                  [free_fd [], open_fd ''b'' 1 0]) ! 0) \<and>
   is_used (fd_table (ex_state [file_entry ''a'' 0 0xFFFF 0, file_entry ''b'' 0 0xFFFF 1]
                  [free_fd [], open_fd ''b'' 1 0]) ! 1)"
  by (simp add: fs_open_def ex_simps)

text \<open>
  C6. In a mounted state where the file \<open>name\<close> exists and its index in the root
  directory is the lowest free descriptor \<open>fd\<close>, \<open>fs_open\<close> returns \<open>fd\<close> and \<open>fs_close\<close>
  of it returns 0. Afterwards the root directory, with every open count, is as before
  the open, and so is the in-use flag of every descriptor. The closed slot itself keeps
  what \<open>fs_open\<close> wrote, the file index, the cursor 0 and the name: \<open>fs_close\<close> clears
  \<open>is_used\<close> only.
\<close>

theorem fs_open_then_fs_close:
  assumes "mounted st"
    and "locate_file st name = fd" and "locate_avail_fd st = fd" and "fd \<noteq> -1"
  shows "\<exists>st1. fs_open st name = Some (fd, st1) \<and>
           fs_close st1 fd =
             Some (0, st\<lparr>fd_table := (fd_table st)
                      [nat fd := (fd_table st ! nat fd)
                          \<lparr>file_index := fd, offset := 0,
                           file_name := cstr name @ NUL #
                             drop (strlen name + 1) (file_name (fd_table st ! nat fd)),
                           is_used := False\<rparr>]\<rparr>) \<and>
           map is_used ((fd_table st)
                      [nat fd := (fd_table st ! nat fd)
                          \<lparr>file_index := fd, offset := 0,
                           file_name := cstr name @ NUL #
                             drop (strlen name + 1) (file_name (fd_table st ! nat fd)),
                           is_used := False\<rparr>])
             = map is_used (fd_table st)"
proof -
  let ?slot = "fd_table st ! nat fd"
  let ?e = "myRootDir st ! nat fd"
  let ?nm = "cstr name @ NUL # drop (strlen name + 1) (file_name ?slot)"
  let ?slot1 = "?slot\<lparr>is_used := True, file_index := fd, offset := 0, file_name := ?nm\<rparr>"
  let ?st1 = "st\<lparr>fd_table := (fd_table st)[nat fd := ?slot1],
                 myRootDir := (myRootDir st)
                   [nat fd := ?e\<lparr>num_fd_pointers := num_fd_pointers ?e + 1\<rparr>]\<rparr>"
  note flen = mounted_sizes(2) [OF assms(1)] and rlen = mounted_sizes(1) [OF assms(1)]
  note av = locate_avail_fd_found [OF assms(1,3,4)]
  note fl = locate_file_found [OF assms(1,2,4)]
  from av flen have lk: "fd_lookup st fd = Some ?slot"
    by (simp add: fd_lookup_def FS_OPEN_MAX_COUNT_def)
  from av have "nat fd < 32" by simp
  from mounted_fd_name [OF assms(1) this] fl(4)
  have cp: "strcpy (file_name ?slot) name = Some ?nm"
    using strcpy_fits [of name "file_name ?slot"] by (simp add: strlen_def)
  have opn: "fs_open st name = Some (fd, ?st1)"
    using assms(2,3,4) lk cp by (simp add: fs_open_def Let_def)
  have lk1: "fd_lookup ?st1 fd = Some ?slot1"
    using av flen by (simp add: fd_lookup_def FS_OPEN_MAX_COUNT_def)
  have "cstr ?nm = cstr name"
    using cstr_append_NUL [OF cstr_no_NUL] by simp
  moreover have "map (\<lambda>e. cstr (filename e)) (myRootDir ?st1)
      = map (\<lambda>e. cstr (filename e)) (myRootDir st)"
    using fl(1,2) rlen by (simp add: map_update list_update_same_conv)
  ultimately have "locate_file ?st1 ?nm = locate_file st name"
    by (rule locate_file_names [rotated])
  with assms(2) have loc1: "locate_file ?st1 (file_name ?slot1) = fd" by simp
  have r: "(myRootDir st)[nat fd := ?e] = myRootDir st" by simp
  have cls: "fs_close ?st1 fd =
      Some (0, st\<lparr>fd_table := (fd_table st)
              [nat fd := ?slot\<lparr>file_index := fd, offset := 0, file_name := ?nm,
                                is_used := False\<rparr>]\<rparr>)"
    using av lk1 loc1 assms(4) fl(1,2) rlen r
    by (simp add: fs_close_def FS_OPEN_MAX_COUNT_def Let_def)
  have "map is_used ((fd_table st)
      [nat fd := ?slot\<lparr>file_index := fd, offset := 0, file_name := ?nm, is_used := False\<rparr>])
      = map is_used (fd_table st)"
    using av flen by (simp add: map_update list_update_same_conv)
  with opn cls show ?thesis by blast
qed

theorem fs_open_then_fs_close_witness:
  "mounted (ex_state [file_entry ''a'' 0 0xFFFF 0] []) \<and>
   locate_file (ex_state [file_entry ''a'' 0 0xFFFF 0] []) ''a'' = 0 \<and>
   locate_avail_fd (ex_state [file_entry ''a'' 0 0xFFFF 0] []) = 0 \<and>
   (0::int) \<noteq> -1 \<and>
   (\<exists>st1. fs_open (ex_state [file_entry ''a'' 0 0xFFFF 0] []) ''a'' = Some (0, st1) \<and>
      fs_close st1 0 = Some (0, ex_state [file_entry ''a'' 0 0xFFFF 0] [free_fd ''a'']))"
proof -
  let ?st = "ex_state [file_entry ''a'' 0 0xFFFF 0] []"
  have m: "mounted ?st"
    by (rule mounted_ex_state) (simp_all add: dir_entry_file_entry)
  have l: "locate_file ?st ''a'' = 0"
    by (simp add: ex_simps)
  have a: "locate_avail_fd ?st = 0"
    by (simp add: ex_simps)
  have e: "?st\<lparr>fd_table := (fd_table ?st)
             [nat 0 := (fd_table ?st ! nat 0)
                \<lparr>file_index := 0, offset := 0,
                 file_name := cstr ''a'' @ NUL #
                   drop (strlen ''a'' + 1) (file_name (fd_table ?st ! nat 0)),
                 is_used := False\<rparr>]\<rparr>
      = ex_state [file_entry ''a'' 0 0xFFFF 0] [free_fd ''a'']"
    by (simp add: ex_simps)
  from fs_open_then_fs_close [OF m l a] m l a e
  show ?thesis by auto
qed

text \<open>
  The descriptor table is not restored as a whole: after mounting, slot 0 holds an empty
  name; after \<open>fs_open\<close> and \<open>fs_close\<close> of the file \<open>a\<close> it holds the name \<open>a\<close>.
\<close>

theorem fs_open_then_fs_close_counterexample:
  "mounted (ex_state [file_entry ''a'' 0 0xFFFF 0] []) \<and>
   locate_file (ex_state [file_entry ''a'' 0 0xFFFF 0] []) ''a'' = 0 \<and>
   fs_open (ex_state [file_entry ''a'' 0 0xFFFF 0] []) ''a''
     = Some (0, ex_state [file_entry ''a'' 0 0xFFFF 1] [open_fd ''a'' 0 0]) \<and>
   fs_close (ex_state [file_entry ''a'' 0 0xFFFF 1] [open_fd ''a'' 0 0]) 0
     = Some (0, ex_state [file_entry ''a'' 0 0xFFFF 0] [free_fd ''a'']) \<and>
   fd_table (ex_state [file_entry ''a'' 0 0xFFFF 0] [free_fd ''a'']) ! 0
     \<noteq> fd_table (ex_state [file_entry ''a'' 0 0xFFFF 0] []) ! 0"
proof (intro conjI)
  show "mounted (ex_state [file_entry ''a'' 0 0xFFFF 0] [])"
    by (rule mounted_ex_state) (simp_all add: dir_entry_file_entry)
  show "locate_file (ex_state [file_entry ''a'' 0 0xFFFF 0] []) ''a'' = 0"
    by (simp add: ex_simps)
  show "fs_open (ex_state [file_entry ''a'' 0 0xFFFF 0] []) ''a''
     = Some (0, ex_state [file_entry ''a'' 0 0xFFFF 1] [open_fd ''a'' 0 0])"
    by (simp add: fs_open_def ex_simps)
  show "fs_close (ex_state [file_entry ''a'' 0 0xFFFF 1] [open_fd ''a'' 0 0]) 0
     = Some (0, ex_state [file_entry ''a'' 0 0xFFFF 0] [free_fd ''a''])"
    by (simp add: fs_close_def ex_simps)
  show "fd_table (ex_state [file_entry ''a'' 0 0xFFFF 0] [free_fd ''a'']) ! 0
     \<noteq> fd_table (ex_state [file_entry ''a'' 0 0xFFFF 0] []) ! 0"
    by (simp add: ex_simps)
qed

section \<open>Seeking\<close>

text \<open>
  C7. For a descriptor \<open>fd\<close> in use in a mounted state whose file is found in the root
  directory, \<open>fs_lseek\<close> returns 0 and sets the cursor of \<open>fd\<close> to the offset, changing
  nothing else, exactly when the offset is at most the size of the file; otherwise it
  returns -1 and the state, the cursor included, is unchanged. An offset is a \<open>size_t\<close> and
  cannot be negative.
\<close>

theorem fs_lseek_in_bounds:
  assumes "mounted st" and "0 \<le> fd" and "fd < 32"
    and "is_used (fd_table st ! nat fd)"
    and "locate_file st (file_name (fd_table st ! nat fd)) = i" and "i \<noteq> -1"
  shows "fs_lseek st fd off =
           (if uint off \<le> sint (fileSize (myRootDir st ! nat i))
            then Some (0, st\<lparr>fd_table := (fd_table st)
                         [nat fd := (fd_table st ! nat fd)\<lparr>offset := off\<rparr>]\<rparr>)
            else Some (-1, st))"
proof -
  let ?sz = "sint (fileSize (myRootDir st ! nat i))"
  note len = mounted_sizes(2) [OF assms(1)]
  with assms(2,3) have lk: "fd_lookup st fd = Some (fd_table st ! nat fd)"
    by (simp add: fd_lookup_def FS_OPEN_MAX_COUNT_def)
  from assms lk have stat: "fs_stat st fd = Some ?sz"
    by (simp add: fs_stat_def FS_OPEN_MAX_COUNT_def Let_def)
  from locate_file_found(1,2) [OF assms(1,5,6)] have "nat i < 128" by simp
  note nonneg = mounted_dir_entry(3) [OF assms(1) this]
  have "?sz < 2 ^ 31" using sint_lt [of "fileSize (myRootDir st ! nat i)"] by simp
  with nonneg have "off > (word_of_int ?sz :: 64 word) \<longleftrightarrow> \<not> uint off \<le> ?sz"
    using uint_size_t_of_int [of ?sz] by (simp add: word_less_def not_le)
  with lk stat assms(4,5,6) show ?thesis
    by (simp add: fs_lseek_def Let_def)
qed

theorem fs_lseek_in_bounds_witness:
  "mounted (ex_state [file_entry ''x'' 5 1 1] [open_fd ''x'' 0 0]) \<and>
   (0::int) \<le> 0 \<and> (0::int) < 32 \<and>
   is_used (fd_table (ex_state [file_entry ''x'' 5 1 1] [open_fd ''x'' 0 0]) ! nat 0) \<and>
   locate_file (ex_state [file_entry ''x'' 5 1 1] [open_fd ''x'' 0 0])
     (file_name (fd_table (ex_state [file_entry ''x'' 5 1 1] [open_fd ''x'' 0 0]) ! nat 0)) = 0 \<and>
   (0::int) \<noteq> -1 \<and>
   fs_lseek (ex_state [file_entry ''x'' 5 1 1] [open_fd ''x'' 0 0]) 0 5
     = Some (0, ex_state [file_entry ''x'' 5 1 1] [open_fd ''x'' 0 5]) \<and>
   fs_lseek (ex_state [file_entry ''x'' 5 1 1] [open_fd ''x'' 0 0]) 0 6
     = Some (-1, ex_state [file_entry ''x'' 5 1 1] [open_fd ''x'' 0 0])"
proof -
  let ?st = "ex_state [file_entry ''x'' 5 1 1] [open_fd ''x'' 0 0]"
  have m: "mounted ?st"
    by (rule mounted_ex_state) (simp_all add: dir_entry_file_entry open_fd_def name_array_pad)
  have u: "is_used (fd_table ?st ! nat 0)"
    by (simp add: ex_defs)
  have l: "locate_file ?st (file_name (fd_table ?st ! nat 0)) = 0"
    by (simp add: ex_simps)
  have e: "?st\<lparr>fd_table := (fd_table ?st)[nat 0 := (fd_table ?st ! nat 0)\<lparr>offset := 5\<rparr>]\<rparr>
      = ex_state [file_entry ''x'' 5 1 1] [open_fd ''x'' 0 5]"
    by (simp add: ex_defs)
  have v: "sint (fileSize (myRootDir ?st ! nat 0)) = 5"
    by (simp add: ex_defs)
  from fs_lseek_in_bounds [OF m _ _ u l, of 5] fs_lseek_in_bounds [OF m _ _ u l, of 6]
    m u l e v
  show ?thesis by simp
qed

section \<open>Creating\<close>

text \<open>
  C5. The file \<open>a\<close> exists. \<open>fs_create\<close> of \<open>a\<close> should return -1 and leave the root
  directory as it is. \<open>error_check\<close> does return -1 for this name, but \<open>fs_create\<close> does
  not look at that result: it returns 0 and the next empty entry becomes a second file
  named \<open>a\<close>.
\<close>

theorem fs_create_inserts_duplicate:
  "error_check (ex_state [file_entry ''a'' 0 0xFFFF 0] []) ''a'' = -1 \<and>
   fs_create (ex_state [file_entry ''a'' 0 0xFFFF 0] []) ''a''
     = Some (0, ex_state [file_entry ''a'' 0 0xFFFF 0, file_entry ''a'' 0 0xFFFF 0] [])"
  by (simp add: fs_create_def error_check_def sum_list_replicate ex_simps)

text \<open>
  C9. In a mounted state, for a name of 1 to 15 bytes and the lowest empty entry \<open>i\<close> of
  the root directory, \<open>fs_create\<close> returns 0 and entry \<open>i\<close> then holds the name followed
  by its terminator, size 0, first block \<open>FAT_EOC\<close> (0xFFFF), open count 0 and zero
  reserved bytes; no other entry changes. This holds whether or not the name is already
  present.
\<close>

theorem fs_create_lowest_empty_slot:
  assumes "mounted st"
    and "0 < strlen name" and "strlen name < 16"
    and "i < 128" and "filename (myRootDir st ! i) ! 0 = NUL"
    and "\<forall>j < i. filename (myRootDir st ! j) ! 0 \<noteq> NUL"
  shows "\<exists>st'. fs_create st name = Some (0, st') \<and>
           take (strlen name + 1) (filename (myRootDir st' ! i)) = cstr name @ [NUL] \<and>
           fileSize (myRootDir st' ! i) = 0 \<and>
           dataBlockInd (myRootDir st' ! i) = 0xFFFF \<and>
           num_fd_pointers (myRootDir st' ! i) = 0 \<and>
           unused (myRootDir st' ! i) = replicate 9 0 \<and>
           (\<forall>j. j \<noteq> i \<longrightarrow> myRootDir st' ! j = myRootDir st ! j)"
proof -
  note len = mounted_sizes(1) [OF assms(1)]
  from assms(1) have fat: "myFAT st \<noteq> []"
    by (simp add: mounted_def)
  from assms(4-6) len have fe: "first_empty (take FS_FILE_MAX_COUNT (myRootDir st)) 0 = Some i"
    using first_empty_lowest [of i "myRootDir st" 0] by (simp add: FS_FILE_MAX_COUNT_def)
  from fat obtain w ws where w: "myFAT st = w # ws" by (cases "myFAT st") auto
  note e = mounted_dir_entry [OF assms(1,4)]
  from e(1) assms(3) have cp: "strcpy (filename (myRootDir st ! i)) name
      = Some (cstr name @ NUL # drop (length (cstr name) + 1) (filename (myRootDir st ! i)))"
    by (intro strcpy_fits) (simp add: strlen_def)
  show ?thesis
    using fe w cp assms(4) e(4) len
    by (simp add: fs_create_def Let_def strlen_def)
qed

theorem fs_create_lowest_empty_slot_witness:
  "mounted (ex_state [file_entry ''a'' 0 0xFFFF 0] []) \<and>
   0 < strlen ''b'' \<and> strlen ''b'' < 16 \<and> (1::nat) < 128 \<and>
   filename (myRootDir (ex_state [file_entry ''a'' 0 0xFFFF 0] []) ! 1) ! 0 = NUL \<and>
   filename (myRootDir (ex_state [file_entry ''a'' 0 0xFFFF 0] []) ! 0) ! 0 \<noteq> NUL \<and>
   (\<exists>st'. fs_create (ex_state [file_entry ''a'' 0 0xFFFF 0] []) ''b'' = Some (0, st') \<and>
      take (strlen ''b'' + 1) (filename (myRootDir st' ! 1)) = cstr ''b'' @ [NUL] \<and>
      fileSize (myRootDir st' ! 1) = 0 \<and>
      dataBlockInd (myRootDir st' ! 1) = 0xFFFF \<and>
      num_fd_pointers (myRootDir st' ! 1) = 0 \<and>
      unused (myRootDir st' ! 1) = replicate 9 0 \<and>
      (\<forall>j. j \<noteq> 1 \<longrightarrow> myRootDir st' ! j = myRootDir (ex_state [file_entry ''a'' 0 0xFFFF 0] []) ! j))"
proof -
  let ?st = "ex_state [file_entry ''a'' 0 0xFFFF 0] []"
  have m: "mounted ?st"
    by (rule mounted_ex_state) (simp_all add: dir_entry_file_entry)
  have n: "0 < strlen ''b''" "strlen ''b'' < 16"
    by (simp_all add: strlen_def)
  have e: "filename (myRootDir ?st ! 1) ! 0 = NUL"
    by (simp add: ex_defs nth_append)
  have f: "\<forall>j<1. filename (myRootDir ?st ! j) ! 0 \<noteq> NUL"
    by (simp add: ex_defs)
  have g: "filename (myRootDir ?st ! 0) ! 0 \<noteq> NUL"
    by (simp add: ex_defs)
  from fs_create_lowest_empty_slot [OF m n _ e f] m n e g
  show ?thesis by simp
qed

section \<open>Deleting\<close>

text \<open>
  \<open>fs_delete\<close> never writes the FAT. It returns 0 for an existing file with open count
  zero whenever the superblock is loaded and its clearing loop stays inside the two
  staging buffers: the file is shorter than a block, or the index of its first block lies
  in \<open>[0, 2 * BLOCK_SIZE)\<close>.
\<close>

lemma fs_delete_keeps_FAT:
  "fs_delete st name = Some (r, st') \<Longrightarrow> myFAT st' = myFAT st"
  by (auto simp: fs_delete_def Let_def split: option.splits if_splits)

lemma delete_step_in_bounds:
  "0 \<le> frst \<Longrightarrow> frst < 2 * int BLOCK_SIZE \<Longrightarrow> delete_step frst bufs \<noteq> None"
  by (simp add: delete_step_def)

lemma delete_loop_in_bounds:
  "0 \<le> frst \<Longrightarrow> frst < 2 * int BLOCK_SIZE \<Longrightarrow> delete_loop n frst bufs \<noteq> None"
proof (induction n arbitrary: bufs)
  case 0
  then show ?case by simp
next
  case (Suc n)
  from delete_step_in_bounds [OF Suc.prems] obtain b where "delete_step frst bufs = Some b"
    by blast
  with Suc.IH [OF Suc.prems] show ?case by simp
qed

lemma sdiv_below_block: "k < 4096 \<Longrightarrow> k sdiv (4096::int) \<le> 0"
  by (cases "0 \<le> k") (simp_all add: signed_divide_int_def sgn_if pos_imp_zdiv_nonneg_iff)

lemma fs_delete_returns_0:
  assumes "mySuperblock st = Some sb" and "locate_file st name = i" and "i \<noteq> -1"
    and "num_fd_pointers (myRootDir st ! nat i) = 0"
    and "sint (fileSize (myRootDir st ! nat i)) < int BLOCK_SIZE \<or>
         (0 \<le> sint (dataBlockInd (myRootDir st ! nat i)) \<and>
          sint (dataBlockInd (myRootDir st ! nat i)) < 2 * int BLOCK_SIZE)"
  shows "\<exists>st'. fs_delete st name = Some (0, st')"
proof -
  let ?e = "myRootDir st ! nat i"
  have "delete_loop (nat (sint (fileSize ?e) sdiv int BLOCK_SIZE))
      (sint (dataBlockInd ?e)) bufs \<noteq> None" for bufs
  proof (cases "sint (fileSize ?e) < int BLOCK_SIZE")
    case True
    then have "sint (fileSize ?e) sdiv int BLOCK_SIZE \<le> 0"
      using sdiv_below_block [of "sint (fileSize ?e)"] by (simp add: int_BLOCK_SIZE)
    then show ?thesis by simp
  next
    case False
    with assms(5) show ?thesis by (intro delete_loop_in_bounds) auto
  qed
  then obtain bufs' where "delete_loop (nat (sint (fileSize ?e) sdiv int BLOCK_SIZE))
      (sint (dataBlockInd ?e))
      (read_into (disk st) (sint (dataInd sb)) (replicate BLOCK_SIZE NUL),
       read_into (disk st) (sint (dataInd sb) + 1) (replicate BLOCK_SIZE NUL)) = Some bufs'"
    by blast
  with assms(1-4) show ?thesis
    by (simp add: fs_delete_def Let_def)
qed

text \<open>
  C3. In a mounted state, when the file \<open>name\<close> exists with open count zero and
  \<open>fs_delete\<close> returns 0, the directory entry of the file is empty afterwards: the first
  byte of its name is NUL, its size and its open count are 0, its reserved bytes are
  zero, and its first block is \<open>FAT_EOC\<close> (0xFFFF), not 0.
\<close>

theorem fs_delete_empties_slot:
  assumes "mounted st" and "locate_file st name = i" and "i \<noteq> -1"
    and "num_fd_pointers (myRootDir st ! nat i) = 0"
    and "fs_delete st name = Some (0, st')"
  shows "filename (myRootDir st' ! nat i) ! 0 = NUL \<and>
         fileSize (myRootDir st' ! nat i) = 0 \<and>
         dataBlockInd (myRootDir st' ! nat i) = 0xFFFF \<and>
         num_fd_pointers (myRootDir st' ! nat i) = 0 \<and>
         unused (myRootDir st' ! nat i) = replicate 9 0"
proof -
  from locate_file_found(1,2) [OF assms(1,2,3)] have i: "nat i < 128" by simp
  note len = mounted_sizes(1) [OF assms(1)]
  note e = mounted_dir_entry(4) [OF assms(1) i]
  from assms(2-5) obtain d where
    "st' = st\<lparr>myRootDir := (myRootDir st)
              [nat i := (myRootDir st ! nat i)
                 \<lparr>dataBlockInd := -1, filename := NUL # drop 1 (filename (myRootDir st ! nat i)),
                  fileSize := 0, num_fd_pointers := 0\<rparr>],
            disk := d\<rparr>"
    by (auto simp: fs_delete_def Let_def split: option.splits)
  with i len e show ?thesis by simp
qed

theorem fs_delete_empties_slot_witness:
  "mounted (ex_state [file_entry ''a'' 4096 1 0] []) \<and>
   locate_file (ex_state [file_entry ''a'' 4096 1 0] []) ''a'' = 0 \<and>
   (0::int) \<noteq> -1 \<and>
   num_fd_pointers (myRootDir (ex_state [file_entry ''a'' 4096 1 0] []) ! nat 0) = 0 \<and>
   fs_delete (ex_state [file_entry ''a'' 4096 1 0] []) ''a''
     = Some (0, ex_state [file_entry [] 0 0xFFFF 0] []) \<and>
   filename (myRootDir (ex_state [file_entry [] 0 0xFFFF 0] []) ! nat 0) ! 0 = NUL \<and>
   fileSize (myRootDir (ex_state [file_entry [] 0 0xFFFF 0] []) ! nat 0) = 0 \<and>
   dataBlockInd (myRootDir (ex_state [file_entry [] 0 0xFFFF 0] []) ! nat 0) = 0xFFFF \<and>
   num_fd_pointers (myRootDir (ex_state [file_entry [] 0 0xFFFF 0] []) ! nat 0) = 0 \<and>
   unused (myRootDir (ex_state [file_entry [] 0 0xFFFF 0] []) ! nat 0) = replicate 9 0"
proof -
  let ?st = "ex_state [file_entry ''a'' 4096 1 0] []"
  have m: "mounted ?st"
    by (rule mounted_ex_state) (simp_all add: dir_entry_file_entry)
  have l: "locate_file ?st ''a'' = 0"
    by (simp add: ex_simps)
  have c: "num_fd_pointers (myRootDir ?st ! nat 0) = 0"
    by (simp add: ex_defs)
  from fs_delete_empties_slot [OF m l _ c fs_delete_ex] m l c fs_delete_ex
  show ?thesis by simp
qed

text \<open>
  The file \<open>a\<close> has one block, data block 1, whose FAT entry is \<open>FAT_EOC\<close>. After
  \<open>fs_delete\<close> has returned 0 that FAT entry is not 0, and the first block of the emptied
  directory entry is not 0 either.
\<close>

theorem fs_delete_empties_slot_counterexample:
  "mounted (ex_state [file_entry ''a'' 4096 1 0] []) \<and>
   locate_file (ex_state [file_entry ''a'' 4096 1 0] []) ''a'' = 0 \<and>
   num_fd_pointers (myRootDir (ex_state [file_entry ''a'' 4096 1 0] []) ! 0) = 0 \<and>
   dataBlockInd (myRootDir (ex_state [file_entry ''a'' 4096 1 0] []) ! 0) = 1 \<and>
   myFAT (ex_state [file_entry ''a'' 4096 1 0] []) ! 1 = 0xFFFF \<and>
   fs_delete (ex_state [file_entry ''a'' 4096 1 0] []) ''a''
     = Some (0, ex_state [file_entry [] 0 0xFFFF 0] []) \<and>
   myFAT (ex_state [file_entry [] 0 0xFFFF 0] []) ! 1 \<noteq> 0 \<and>
   dataBlockInd (myRootDir (ex_state [file_entry [] 0 0xFFFF 0] []) ! 0) \<noteq> 0"
proof (intro conjI)
  show "mounted (ex_state [file_entry ''a'' 4096 1 0] [])"
    by (rule mounted_ex_state) (simp_all add: dir_entry_file_entry)
  show "locate_file (ex_state [file_entry ''a'' 4096 1 0] []) ''a'' = 0"
    by (simp add: ex_simps)
  show "fs_delete (ex_state [file_entry ''a'' 4096 1 0] []) ''a''
     = Some (0, ex_state [file_entry [] 0 0xFFFF 0] [])"
    by (rule fs_delete_ex)
qed (simp_all add: ex_defs)

text \<open>
  C8. When the file \<open>name\<close> exists and its open count \<open>num_fd_pointers\<close> is not zero,
  \<open>fs_delete\<close> returns -1 and the whole state is as before the call: the directory entry
  with its open count, the FAT and the disk.
\<close>

theorem fs_delete_open_file:
  assumes "locate_file st name = i" and "i \<noteq> -1"
    and "0 < num_fd_pointers (myRootDir st ! nat i)"
  shows "fs_delete st name = Some (-1, st)"
  using assms by (simp add: fs_delete_def Let_def)

theorem fs_delete_open_file_witness:
  "locate_file (ex_state [file_entry ''a'' 4096 1 1] [open_fd ''a'' 0 0]) ''a'' = 0 \<and>
   (0::int) \<noteq> -1 \<and>
   0 < num_fd_pointers (myRootDir (ex_state [file_entry ''a'' 4096 1 1] [open_fd ''a'' 0 0]) ! nat 0) \<and>
   fs_delete (ex_state [file_entry ''a'' 4096 1 1] [open_fd ''a'' 0 0]) ''a''
     = Some (-1, ex_state [file_entry ''a'' 4096 1 1] [open_fd ''a'' 0 0])"
proof -
  have l: "locate_file (ex_state [file_entry ''a'' 4096 1 1] [open_fd ''a'' 0 0]) ''a'' = 0"
    by (simp add: ex_simps)
  have c: "0 < num_fd_pointers
      (myRootDir (ex_state [file_entry ''a'' 4096 1 1] [open_fd ''a'' 0 0]) ! nat 0)"
    by (simp add: ex_defs)
  from fs_delete_open_file [OF l _ c] l c show ?thesis by simp
qed

section \<open>Unmounting\<close>

text \<open>
  C4. \<open>fs_umount\<close> returns -1, leaving the state as it is, exactly when no superblock is
  loaded. It never looks at the descriptor table: in a mounted state it does not return
  -1, whether or not descriptors are in use.
\<close>

theorem fs_umount_only_checks_superblock:
  "fs_umount st = Some (-1, st') \<longleftrightarrow> mySuperblock st = None \<and> st' = st"
  by (auto simp: fs_umount_def free_def split: option.splits)

theorem fs_umount_only_checks_superblock_witness:
  "mySuperblock ((ex_state [] [])\<lparr>mySuperblock := None\<rparr>) = None \<and>
   fs_umount ((ex_state [] [])\<lparr>mySuperblock := None\<rparr>)
     = Some (-1, (ex_state [] [])\<lparr>mySuperblock := None\<rparr>)"
  using fs_umount_only_checks_superblock
    [of "(ex_state [] [])\<lparr>mySuperblock := None\<rparr>" "(ex_state [] [])\<lparr>mySuperblock := None\<rparr>"]
  by simp

text \<open>
  Descriptor 0 is in use in a mounted state, and \<open>fs_umount\<close> does not return -1 with the
  state intact.
\<close>

theorem fs_umount_counterexample:
  "mounted (ex_state [file_entry ''a'' 0 0xFFFF 1] [open_fd ''a'' 0 0]) \<and>
   is_used (fd_table (ex_state [file_entry ''a'' 0 0xFFFF 1] [open_fd ''a'' 0 0]) ! 0) \<and>
   fs_umount (ex_state [file_entry ''a'' 0 0xFFFF 1] [open_fd ''a'' 0 0])
     \<noteq> Some (-1, ex_state [file_entry ''a'' 0 0xFFFF 1] [open_fd ''a'' 0 0])"
proof (intro conjI)
  show "mounted (ex_state [file_entry ''a'' 0 0xFFFF 1] [open_fd ''a'' 0 0])"
    by (rule mounted_ex_state) (simp_all add: dir_entry_file_entry open_fd_def name_array_pad)
  show "is_used (fd_table (ex_state [file_entry ''a'' 0 0xFFFF 1] [open_fd ''a'' 0 0]) ! 0)"
    by (simp add: ex_defs)
  show "fs_umount (ex_state [file_entry ''a'' 0 0xFFFF 1] [open_fd ''a'' 0 0])
     \<noteq> Some (-1, ex_state [file_entry ''a'' 0 0xFFFF 1] [open_fd ''a'' 0 0])"
    by (simp add: fs_umount_def free_def ex_state_def)
qed

section \<open>Out-of-range descriptors\<close>

text \<open>
  C10. \<open>fs_read\<close> and \<open>fs_lseek\<close> index the descriptor table with the caller's \<open>fd\<close> before
  any range check: for every \<open>fd\<close> outside \<open>[0, 32)\<close> the table lookup yields no slot and
  both operations are an out-of-bounds access, whereas \<open>fs_close\<close> and \<open>fs_stat\<close> reject
  such an \<open>fd\<close> with -1 and leave the state as it is.
\<close>

theorem fd_out_of_range:
  "fd < 0 \<or> 32 \<le> fd \<Longrightarrow>
     fd_lookup st fd = None \<and>
     fs_read st fd buf count = None \<and>
     fs_lseek st fd off = None \<and>
     fs_close st fd = Some (-1, st) \<and>
     fs_stat st fd = Some (-1)"
  by (auto simp: fd_lookup_def fs_read_def fs_lseek_def fs_close_def fs_stat_def
      FS_OPEN_MAX_COUNT_def)

theorem fd_out_of_range_witness:
  "((32::int) < 0 \<or> (32::int) \<le> 32) \<and>
   fd_lookup (ex_state [file_entry ''a'' 4096 1 0] []) 32 = None \<and>
   fs_read (ex_state [file_entry ''a'' 4096 1 0] []) 32 (replicate BLOCK_SIZE NUL) 5 = None \<and>
   fs_lseek (ex_state [file_entry ''a'' 4096 1 0] []) 32 0 = None \<and>
   fs_close (ex_state [file_entry ''a'' 4096 1 0] []) 32
     = Some (-1, ex_state [file_entry ''a'' 4096 1 0] []) \<and>
   fs_stat (ex_state [file_entry ''a'' 4096 1 0] []) 32 = Some (-1)"
  using fd_out_of_range [of 32 "ex_state [file_entry ''a'' 4096 1 0] []"
      "replicate BLOCK_SIZE NUL" 5 0]
  by simp

end
